theory Spec2Isabelle
  imports Main
begin

section \<open>Go library functions the program calls\<close>

text \<open>
  \<^verbatim>\<open>strings.Join(elems, sep)\<close>: the elements in order, \<open>sep\<close> between neighbours,
  the empty string for no elements. The separator comes first here so that a partial
  application reads as "a comma-separated list".
\<close>

fun join :: "string \<Rightarrow> string list \<Rightarrow> string" where
  "join sep [] = []"
| "join sep [x] = x"
| "join sep (x # y # ys) = x @ sep @ join sep (y # ys)"

text \<open>
  \<^verbatim>\<open>fmt.Sprintf(format, operands...)\<close> for string operands. The format is scanned from the
  left; \<^verbatim>\<open>%s\<close> is replaced by the next operand, which is copied and not scanned again;
  \<^verbatim>\<open>%%\<close> is a percent sign. Go reports a verb with no operand left as
  \<^verbatim>\<open>%!s(MISSING)\<close>, operands left over as \<^verbatim>\<open>%!(EXTRA string=..., ...)\<close> and a format
  ending in a lone percent sign as \<^verbatim>\<open>%!(NOVERB)\<close>. Every format of this program uses the
  verb \<^verbatim>\<open>%s\<close> only; any other verb is outside this model (the last branch copies it
  unchanged) and no statement below reaches it.
\<close>

fun sprintf :: "string \<Rightarrow> string list \<Rightarrow> string" where
  "sprintf [] [] = []"
| "sprintf [] (a # as) =
     ''%!(EXTRA '' @ join '', '' (map (\<lambda>x. ''string='' @ x) (a # as)) @ '')''"
| "sprintf [c] as =
     (if c = CHR ''%'' then ''%!(NOVERB)'' @ sprintf [] as else c # sprintf [] as)"
| "sprintf (c # d # fs) as =
     (if c \<noteq> CHR ''%'' then c # sprintf (d # fs) as
      else if d = CHR ''%'' then CHR ''%'' # sprintf fs as
      else if d = CHR ''s'' then
        (case as of
           [] \<Rightarrow> ''%!s(MISSING)'' @ sprintf fs []
         | a # as' \<Rightarrow> a @ sprintf fs as')
      else c # d # sprintf fs as)"

text \<open>A line break and a tab, as they stand inside Go's raw string literals.\<close>

definition nl :: string where
  "nl = [CHR 0x0A]"

definition tab :: "string \<Rightarrow> string" where
  "tab s = CHR 0x09 # s"

text \<open>
  Go errors, as the program builds them with the package \<^verbatim>\<open>errors\<close>: a new error with a
  message, and an error wrapped by \<^verbatim>\<open>Trace\<close>, \<^verbatim>\<open>Annotate\<close> or \<^verbatim>\<open>Wrap\<close>. Errors returned by
  the external services are values of the same type. A Go value of type \<^verbatim>\<open>error\<close> may be
  \<^verbatim>\<open>nil\<close>: that is \<open>None\<close> of \<open>error option\<close>.
\<close>

datatype error =
    ErrorsNew string
  | ErrorsTrace error
  | ErrorsAnnotate error string
  | ErrorsWrap error string

text \<open>
  \<^verbatim>\<open>errors.Trace\<close>, \<^verbatim>\<open>errors.Annotate\<close> and \<^verbatim>\<open>errors.Wrap\<close> return \<^verbatim>\<open>nil\<close> when they are given
  \<^verbatim>\<open>nil\<close>, and the wrapped error otherwise.
\<close>

definition errors_Trace :: "error option \<Rightarrow> error option" where
  "errors_Trace err = (case err of None \<Rightarrow> None | Some e \<Rightarrow> Some (ErrorsTrace e))"

definition errors_Annotate :: "error option \<Rightarrow> string \<Rightarrow> error option" where
  "errors_Annotate err message =
     (case err of None \<Rightarrow> None | Some e \<Rightarrow> Some (ErrorsAnnotate e message))"

definition errors_Wrap :: "error option \<Rightarrow> string \<Rightarrow> error option" where
  "errors_Wrap err message =
     (case err of None \<Rightarrow> None | Some e \<Rightarrow> Some (ErrorsWrap e message))"

text \<open>
  The outcome of a Go function that returns \<^verbatim>\<open>(value, error)\<close> and dereferences pointers:
  it returns the value with a \<^verbatim>\<open>nil\<close> error, returns an error with no value, or panics on a
  \<^verbatim>\<open>nil\<close> pointer.
\<close>

datatype 'a go_result = Ok 'a | Err error | NilPanic


section \<open>The captured schema\<close>

text \<open>
  \<^verbatim>\<open>cloudstorage.TableCol\<close> and \<^verbatim>\<open>cloudstorage.TableDefinition\<close>, with the fields the
  program reads. \<open>Nullable\<close> and \<open>IsPK\<close> are strings in the captured schema
  (\<^verbatim>\<open>"true"\<close> or \<^verbatim>\<open>"false"\<close>), and the program compares them as strings.
\<close>

record TableCol =
  Name :: string
  Tp :: string
  Nullable :: string
  IsPK :: string

text \<open>
  \<^verbatim>\<open>timodel.ActionType\<close>: the constants the program tests, and one constructor for every
  other kind of schema change.
\<close>

datatype ActionType =
    ActionCreateSchema
  | ActionDropSchema
  | ActionCreateTable
  | ActionDropTable
  | ActionTruncateTable
  | ActionRenameTables
  | ActionOther nat

text \<open>
  \<^verbatim>\<open>timodel.ActionRenameTable\<close>, the change type of a statement that renames one table, is
  a constant of the same library that the program never tests: it tests
  \<^verbatim>\<open>timodel.ActionRenameTables\<close>, the change type of a statement that renames several tables
  at once. The library gives the single rename the value 14, so here it is one of the
  other kinds of schema change.
\<close>

definition ActionRenameTable :: ActionType where
  "ActionRenameTable = ActionOther 14"

record TableDefinition =
  Table :: string
  Schema :: string
  Type :: ActionType
  Columns :: "TableCol list"


section \<open>bigquerysql.GenMergeInto\<close>

text \<open>
  The first loop of \<^verbatim>\<open>GenMergeInto\<close>: one pass over the columns that appends to
  \<^verbatim>\<open>pkColumn\<close> and \<^verbatim>\<open>onStat\<close> for each column whose \<open>IsPK\<close> is the string \<^verbatim>\<open>"true"\<close>.
\<close>

definition pk_step :: "string list \<times> string list \<Rightarrow> TableCol \<Rightarrow> string list \<times> string list" where
  "pk_step acc col =
     (case acc of (pkColumn, onStat) \<Rightarrow>
        if IsPK col = ''true''
        then (pkColumn @ [Name col],
              onStat @ [sprintf ''T.%s = S.%s'' [Name col, Name col]])
        else (pkColumn, onStat))"

text \<open>The three loops that follow: each appends one string per column, for every column.\<close>

definition updateStat :: "TableCol list \<Rightarrow> string list" where
  "updateStat cols =
     foldl (\<lambda>acc col. acc @ [sprintf ''%s = S.%s'' [Name col, Name col]]) [] cols"

definition insertStat :: "TableCol list \<Rightarrow> string list" where
  "insertStat cols = foldl (\<lambda>acc col. acc @ [Name col]) [] cols"

definition valuesStat :: "TableCol list \<Rightarrow> string list" where
  "valuesStat cols = foldl (\<lambda>acc col. acc @ [sprintf ''S.%s'' [Name col]]) [] cols"

text \<open>The format of the merge statement, line by line as in the raw string literal.\<close>

definition mergeFormat :: string where
  "mergeFormat = join nl
     [''MERGE INTO %s AS T USING'',
      tab ''('',
      tab (tab ''SELECT * EXCEPT(row_num)''),
      tab (tab ''FROM (''),
      tab (tab (tab ''SELECT'')),
      tab (tab (tab (tab
        ''*, row_number() over (partition by %s order by %s desc) as row_num''))),
      tab (tab (tab ''FROM %s'')),
      tab (tab '')''),
      tab (tab ''WHERE row_num = 1''),
      tab '') AS S'',
      tab ''ON'',
      tab ''('',
      tab (tab ''%s''),
      tab '')'',
      tab ''WHEN MATCHED AND S.%s != 'D' THEN UPDATE SET %s'',
      tab ''WHEN MATCHED AND S.%s = 'D' THEN DELETE'',
      tab ''WHEN NOT MATCHED AND S.%s != 'D' THEN INSERT (%s) VALUES (%s);'']"

text \<open>
  \<^verbatim>\<open>GenMergeInto\<close>. The names of the commit-timestamp and flag columns
  (\<^verbatim>\<open>utils.CDCCommitTsColumnName\<close>, \<^verbatim>\<open>utils.CDCFlagColumnName\<close>) are constants of a
  package that is not part of the sources at hand; they are the first two parameters.
  The function has no error result and no operation that can panic: it ranges over a
  slice, appends, formats and joins.
\<close>

definition GenMergeInto ::
  "string \<Rightarrow> string \<Rightarrow> TableDefinition \<Rightarrow> string \<Rightarrow> string \<Rightarrow> string \<Rightarrow> string" where
  "GenMergeInto CDCCommitTsColumnName CDCFlagColumnName tableDef datasetID tableID externalTableID =
     (case foldl pk_step ([], []) (Columns tableDef) of (pkColumn, onStat) \<Rightarrow>
        sprintf mergeFormat
          [sprintf ''`%s.%s`'' [datasetID, tableID],
           join '', '' pkColumn,
           CDCCommitTsColumnName,
           sprintf ''`%s.%s`'' [datasetID, externalTableID],
           join '' AND '' onStat,
           CDCFlagColumnName,
           join '', '' (updateStat (Columns tableDef)),
           CDCFlagColumnName,
           CDCFlagColumnName,
           join '', '' (insertStat (Columns tableDef)),
           join '', '' (valuesStat (Columns tableDef))])"


section \<open>databrickssql.GenDDLViaColumnsDiff\<close>

text \<open>
  Modelled from the spec: the types \<^verbatim>\<open>tidbsql.ColumnDiffType\<close> and \<^verbatim>\<open>tidbsql.ColumnDiff\<close>
  belong to a package that is not part of the sources at hand. The specification gives
  a diff item an action among Add, Drop, Modify, Rename and Unchanged and two optional
  columns; the code names the actions \<^verbatim>\<open>ADD_COLUMN\<close>, \<^verbatim>\<open>DROP_COLUMN\<close>, \<^verbatim>\<open>MODIFY_COLUMN\<close> and
  \<^verbatim>\<open>RENAME_COLUMN\<close>, treats the rest under \<^verbatim>\<open>default\<close>, and reads \<open>Before\<close> and \<open>After\<close> through
  pointers, which are \<^verbatim>\<open>nil\<close> at \<open>None\<close>.
\<close>

datatype ColumnDiffType = UNCHANGE | ADD_COLUMN | DROP_COLUMN | MODIFY_COLUMN | RENAME_COLUMN

record ColumnDiff =
  Action :: ColumnDiffType
  Before :: "TableCol option"
  After :: "TableCol option"

text \<open>
  \<^verbatim>\<open>GetDatabricksColumnString\<close>. The type mapping \<^verbatim>\<open>GetDatabricksTypeString\<close> is not part
  of the sources at hand; it is a parameter, a function that gives a type name or fails.
\<close>

definition GetDatabricksColumnString ::
  "(TableCol \<Rightarrow> error + string) \<Rightarrow> TableCol \<Rightarrow> error + string" where
  "GetDatabricksColumnString GetDatabricksTypeString column =
     (case GetDatabricksTypeString column of
        Inl err \<Rightarrow> Inl (ErrorsTrace err)
      | Inr typeStr \<Rightarrow>
          Inr (sprintf ''%s %s'' [Name column, typeStr]
                 @ (if Nullable column = ''false'' then '' NOT NULL'' else [])))"

text \<open>
  The \<^verbatim>\<open>switch\<close> in the body of the loop of \<^verbatim>\<open>GenDDLViaColumnsDiff\<close>: the text \<^verbatim>\<open>ddl\<close> that
  one diff item gives (empty under \<^verbatim>\<open>default\<close>), an error that ends the function, or a
  panic where the item lacks the column that its action dereferences.
\<close>

definition ddl_of_item ::
  "(TableCol \<Rightarrow> error + string) \<Rightarrow> string \<Rightarrow> ColumnDiff \<Rightarrow> string go_result" where
  "ddl_of_item GetDatabricksTypeString tbl item =
     (case Action item of
        ADD_COLUMN \<Rightarrow>
          (case After item of
             None \<Rightarrow> NilPanic
           | Some after \<Rightarrow>
               (case GetDatabricksColumnString GetDatabricksTypeString after of
                  Inl err \<Rightarrow> Err (ErrorsTrace err)
                | Inr colStr \<Rightarrow> Ok (sprintf ''ALTER TABLE %s ADD COLUMN '' [tbl] @ colStr)))
      | DROP_COLUMN \<Rightarrow>
          (case Before item of
             None \<Rightarrow> NilPanic
           | Some before \<Rightarrow> Ok (sprintf ''ALTER TABLE %s DROP COLUMN %s'' [tbl, Name before]))
      | MODIFY_COLUMN \<Rightarrow>
          Err (ErrorsNew ''Received modify column ddl, which is not supported by Databricks yet'')
      | RENAME_COLUMN \<Rightarrow>
          (case Before item of
             None \<Rightarrow> NilPanic
           | Some before \<Rightarrow>
               (case After item of
                  None \<Rightarrow> NilPanic
                | Some after \<Rightarrow>
                    Ok (sprintf ''ALTER TABLE %s RENAME COLUMN %s TO %s''
                          [tbl, Name before, Name after])))
      | UNCHANGE \<Rightarrow> Ok [])"

text \<open>
  The loop over the diff items: a non-empty \<^verbatim>\<open>ddl\<close> gets a semicolon and is appended to
  \<^verbatim>\<open>ddls\<close>; an error or a panic ends the loop.
\<close>

fun ddl_loop ::
  "(TableCol \<Rightarrow> error + string) \<Rightarrow> string \<Rightarrow> ColumnDiff list \<Rightarrow> string list
     \<Rightarrow> string list go_result" where
  "ddl_loop ts tbl [] ddls = Ok ddls"
| "ddl_loop ts tbl (item # items) ddls =
     (case ddl_of_item ts tbl item of
        Ok ddl \<Rightarrow>
          if ddl \<noteq> [] then ddl_loop ts tbl items (ddls @ [ddl @ '';''])
          else ddl_loop ts tbl items ddls
      | Err err \<Rightarrow> Err err
      | NilPanic \<Rightarrow> NilPanic)"

text \<open>
  \<^verbatim>\<open>GenDDLViaColumnsDiff\<close>. The diff \<^verbatim>\<open>tidbsql.GetColumnDiff\<close> is not part of the sources
  at hand; it is a parameter, a function that gives the diff items or fails.
\<close>

definition GenDDLViaColumnsDiff ::
  "(TableCol list \<Rightarrow> TableCol list \<Rightarrow> error + ColumnDiff list)
     \<Rightarrow> (TableCol \<Rightarrow> error + string)
     \<Rightarrow> TableCol list \<Rightarrow> TableDefinition \<Rightarrow> string list go_result" where
  "GenDDLViaColumnsDiff GetColumnDiff GetDatabricksTypeString prevColumns curTableDef =
     (if Type curTableDef = ActionTruncateTable
      then Ok [sprintf ''TRUNCATE TABLE %s'' [Table curTableDef]]
      else if Type curTableDef = ActionDropTable
      then Ok [sprintf ''DROP TABLE %s'' [Table curTableDef]]
      else if Type curTableDef = ActionCreateTable
      then Err (ErrorsNew ''Received create table ddl, which should not happen'')
      else if Type curTableDef = ActionRenameTables
      then Err (ErrorsNew
             (''Received rename table ddl, new change data can not be capture by TiCDC any more.''
              @ ''If you want to rename table, please start a new task to capture the new table''))
      else if Type curTableDef = ActionDropSchema
      then Ok [sprintf ''DROP SCHEMA %s CASCADE'' [Schema curTableDef]]
      else if Type curTableDef = ActionCreateSchema
      then Err (ErrorsNew ''Received create schema ddl, which should not happen'')
      else
        (case GetColumnDiff prevColumns (Columns curTableDef) of
           Inl err \<Rightarrow> Err (ErrorsTrace err)
         | Inr columnDiff \<Rightarrow>
             ddl_loop GetDatabricksTypeString (Table curTableDef) columnDiff []))"


section \<open>cmd: the stage check and the orchestrator\<close>

text \<open>The run modes and the stages, as the constants of the package declare them.\<close>

datatype RunMode = RunModeFull | RunModeSnapshotOnly | RunModeIncrementalOnly | RunModeCloud

datatype Stage =
  StageInit | StageChangefeedCreated | StageSnapshotDumped | StageSnapshotLoaded

text \<open>
  The operations on external systems that the package invokes. A run is described by the
  error it returns and the list of these operations in the order of their invocation.
  \<^verbatim>\<open>NewCDCConnector\<close> and \<^verbatim>\<open>RunDump\<close> are recorded with the start position they are given.
\<close>

datatype call =
    FileExists_call string
  | GetCurrentTSO_call
  | NewCDCConnector_call nat
  | CreateChangefeed_call
  | RunDump_call nat
  | StartReplicateSnapshot_call
  | StartReplicateIncrement_call

text \<open>
  The external storage as \<^verbatim>\<open>checkStage\<close> sees it: whether it can be opened
  (\<^verbatim>\<open>putil.GetExternalStorage\<close>) and what \<^verbatim>\<open>FileExists\<close> returns for a path, a pair of the
  flag \<^verbatim>\<open>exist\<close> and an error that may be \<^verbatim>\<open>nil\<close>.
\<close>

record Storage =
  GetExternalStorage :: "error option"
  FileExists :: "string \<Rightarrow> bool \<times> error option"

text \<open>
  \<^verbatim>\<open>checkStage\<close>: the stage and the error it returns, and the probes it has made. Each
  probe returns from the function when \<^verbatim>\<open>err != nil || !exist\<close>, with the error passed
  through \<^verbatim>\<open>errors.Wrap\<close>.
\<close>

definition checkStage :: "Storage \<Rightarrow> (Stage \<times> error option) \<times> call list" where
  "checkStage st =
     (case GetExternalStorage st of
        Some err \<Rightarrow> ((StageInit, Some err), [])
      | None \<Rightarrow>
          (case FileExists st ''increment/metadata'' of (exist, err) \<Rightarrow>
             if err \<noteq> None \<or> \<not> exist
             then ((StageInit, errors_Wrap err ''Failed to check increment metadata''),
                   [FileExists_call ''increment/metadata''])
             else
               (case FileExists st ''snapshot/metadata'' of (exist, err) \<Rightarrow>
                  if err \<noteq> None \<or> \<not> exist
                  then ((StageChangefeedCreated,
                         errors_Wrap err ''Failed to check snapshot metadata''),
                        [FileExists_call ''increment/metadata'',
                         FileExists_call ''snapshot/metadata''])
                  else
                    (case FileExists st ''snapshot/loadinfo'' of (exist, err) \<Rightarrow>
                       if err \<noteq> None \<or> \<not> exist
                       then ((StageSnapshotDumped,
                              errors_Wrap err ''Failed to check snapshot loadinfo''),
                             [FileExists_call ''increment/metadata'',
                              FileExists_call ''snapshot/metadata'',
                              FileExists_call ''snapshot/loadinfo''])
                       else ((StageSnapshotLoaded, None),
                             [FileExists_call ''increment/metadata'',
                              FileExists_call ''snapshot/metadata'',
                              FileExists_call ''snapshot/loadinfo''])))))"

text \<open>
  What the external systems answer during one run of \<^verbatim>\<open>Replicate\<close>: the storage, the
  current position of the source (\<^verbatim>\<open>tidbsql.GetCurrentTSO\<close>, a value and an error), the
  two functions of \<^verbatim>\<open>net/url\<close> that \<^verbatim>\<open>genURI\<close> calls, and the error, possibly \<^verbatim>\<open>nil\<close>,
  that each stage operation returns.
\<close>

record Env =
  storage :: Storage
  GetCurrentTSO :: "nat \<times> error option"
  url_JoinPath :: "string \<Rightarrow> string \<Rightarrow> error + string"
  url_Parse :: "string \<Rightarrow> error + string"
  NewCDCConnector :: "error option"
  CreateChangefeed :: "error option"
  RunDump :: "error option"
  StartReplicateSnapshot :: "error option"
  StartReplicateIncrement :: "error option"

text \<open>\<^verbatim>\<open>genURI\<close>: the snapshot and increment locations under the storage path.\<close>

definition genURI :: "Env \<Rightarrow> string \<Rightarrow> string option \<times> string option \<times> error option" where
  "genURI env storagePath =
     (case url_JoinPath env storagePath ''snapshot'' of
        Inl err \<Rightarrow> (None, None, Some (ErrorsAnnotate err ''Failed to join workspace path''))
      | Inr snapStoragePath \<Rightarrow>
     (case url_Parse env snapStoragePath of
        Inl err \<Rightarrow> (None, None, Some (ErrorsAnnotate err ''Failed to parse workspace path''))
      | Inr snapshotURI \<Rightarrow>
     (case url_JoinPath env storagePath ''increment'' of
        Inl err \<Rightarrow> (None, None, Some (ErrorsAnnotate err ''Failed to join workspace path''))
      | Inr increStoragePath \<Rightarrow>
     (case url_Parse env increStoragePath of
        Inl err \<Rightarrow>
          (Some snapshotURI, None, Some (ErrorsAnnotate err ''Failed to parse workspace path''))
      | Inr incrementURI \<Rightarrow> (Some snapshotURI, Some incrementURI, None)))))"

text \<open>
  The \<^verbatim>\<open>switch\<close> of \<^verbatim>\<open>Replicate\<close> has one case per stage and each case but the last ends in
  \<^verbatim>\<open>fallthrough\<close>. Each case is a function here, last case first; a case that falls
  through continues with the function of the next case, and \<open>after_calls\<close> puts the
  operations already invoked in front of those of the continuation.
\<close>

definition after_calls :: "call list \<Rightarrow> error option \<times> call list \<Rightarrow> error option \<times> call list" where
  "after_calls made rest = (fst rest, made @ snd rest)"

definition case_StageSnapshotLoaded :: "Env \<Rightarrow> RunMode \<Rightarrow> error option \<times> call list" where
  "case_StageSnapshotLoaded env mode =
     (if mode \<noteq> RunModeSnapshotOnly
      then (case StartReplicateIncrement env of
              Some err \<Rightarrow>
                (Some (ErrorsAnnotate err ''Failed to replicate incremental''),
                 [StartReplicateIncrement_call])
            | None \<Rightarrow> (None, [StartReplicateIncrement_call]))
      else (None, []))"

definition case_StageSnapshotDumped :: "Env \<Rightarrow> RunMode \<Rightarrow> error option \<times> call list" where
  "case_StageSnapshotDumped env mode =
     (if mode \<noteq> RunModeIncrementalOnly
      then (case StartReplicateSnapshot env of
              Some err \<Rightarrow>
                (Some (ErrorsAnnotate err ''Failed to replicate snapshot''),
                 [StartReplicateSnapshot_call])
            | None \<Rightarrow>
                after_calls [StartReplicateSnapshot_call] (case_StageSnapshotLoaded env mode))
      else case_StageSnapshotLoaded env mode)"

definition case_StageChangefeedCreated ::
  "Env \<Rightarrow> RunMode \<Rightarrow> nat \<Rightarrow> error option \<times> call list" where
  "case_StageChangefeedCreated env mode startTSO =
     (if mode \<noteq> RunModeIncrementalOnly \<and> mode \<noteq> RunModeCloud
      then (case RunDump env of
              Some err \<Rightarrow> (Some (ErrorsTrace err), [RunDump_call startTSO])
            | None \<Rightarrow> after_calls [RunDump_call startTSO] (case_StageSnapshotDumped env mode))
      else case_StageSnapshotDumped env mode)"

definition case_StageInit :: "Env \<Rightarrow> RunMode \<Rightarrow> nat \<Rightarrow> error option \<times> call list" where
  "case_StageInit env mode startTSO =
     (if mode \<noteq> RunModeSnapshotOnly \<and> mode \<noteq> RunModeCloud
      then (case NewCDCConnector env of
              Some err \<Rightarrow> (Some (ErrorsTrace err), [NewCDCConnector_call startTSO])
            | None \<Rightarrow>
                (case CreateChangefeed env of
                   Some err \<Rightarrow>
                     (Some (ErrorsTrace err),
                      [NewCDCConnector_call startTSO, CreateChangefeed_call])
                 | None \<Rightarrow>
                     after_calls [NewCDCConnector_call startTSO, CreateChangefeed_call]
                       (case_StageChangefeedCreated env mode startTSO)))
      else case_StageChangefeedCreated env mode startTSO)"

text \<open>The \<^verbatim>\<open>switch\<close> enters the case of the stage.\<close>

definition switch_stage ::
  "Env \<Rightarrow> RunMode \<Rightarrow> nat \<Rightarrow> Stage \<Rightarrow> error option \<times> call list" where
  "switch_stage env mode startTSO stage =
     (case stage of
        StageInit \<Rightarrow> case_StageInit env mode startTSO
      | StageChangefeedCreated \<Rightarrow> case_StageChangefeedCreated env mode startTSO
      | StageSnapshotDumped \<Rightarrow> case_StageSnapshotDumped env mode
      | StageSnapshotLoaded \<Rightarrow> case_StageSnapshotLoaded env mode)"

text \<open>
  \<^verbatim>\<open>Replicate\<close>: the stage check, the start position (asked for in mode \<^verbatim>\<open>full\<close> only,
  zero otherwise), the two locations, then the \<^verbatim>\<open>switch\<close>. Each failure returns at once.
\<close>

definition Replicate :: "Env \<Rightarrow> string \<Rightarrow> RunMode \<Rightarrow> error option \<times> call list" where
  "Replicate env storagePath mode =
     (case checkStage (storage env) of ((stage, err), probes) \<Rightarrow>
        if err \<noteq> None then (errors_Trace err, probes)
        else after_calls probes
          (if mode = RunModeFull \<and> snd (GetCurrentTSO env) \<noteq> None
           then (errors_Annotate (snd (GetCurrentTSO env)) ''Failed to get current TSO'',
                 [GetCurrentTSO_call])
           else after_calls (if mode = RunModeFull then [GetCurrentTSO_call] else [])
             (case genURI env storagePath of (snapshotURI, incrementURI, err) \<Rightarrow>
                if err \<noteq> None then (errors_Trace err, [])
                else switch_stage env mode
                       (if mode = RunModeFull then fst (GetCurrentTSO env) else 0) stage)))"


section \<open>The specification, in the terms of the model\<close>

subsection \<open>The statement that GenMergeInto is meant to synthesize\<close>

text \<open>
  The specification describes the statement by its parts: an inner selection that ranks
  the raw change-log rows within each partition by an ordering column, descending, and
  keeps rank 1; a join of the target \<open>T\<close> with that selection \<open>S\<close> on equality of the
  key columns; and a list of conditional clauses, each for matched or unmatched rows
  and for a flag that is or is not \<^verbatim>\<open>'D'\<close>. The record holds those parts and
  \<open>render_merge\<close> writes them as text, so that the text built by the code can be compared
  with the rendering of a statement of the specified shape.
\<close>

datatype merge_action =
    UpdateSet "string list"
  | DeleteRow
  | InsertRow "string list"

record when_clause =
  wc_matched :: bool
  wc_deleted :: bool
  wc_action :: merge_action

record dedup_merge =
  target :: string
  partition_by :: "string list"
  order_desc :: string
  source :: string
  on_cols :: "string list"
  flag_col :: string
  clauses :: "when_clause list"

fun render_action :: "merge_action \<Rightarrow> string" where
  "render_action (UpdateSet cols) =
     ''UPDATE SET '' @ join '', '' (map (\<lambda>c. c @ '' = S.'' @ c) cols)"
| "render_action DeleteRow = ''DELETE''"
| "render_action (InsertRow cols) =
     ''INSERT ('' @ join '', '' cols @ '') VALUES (''
       @ join '', '' (map (\<lambda>c. ''S.'' @ c) cols) @ '')''"

definition render_clause :: "string \<Rightarrow> when_clause \<Rightarrow> string" where
  "render_clause flag wc =
     ''WHEN '' @ (if wc_matched wc then ''MATCHED'' else ''NOT MATCHED'')
       @ '' AND S.'' @ flag
       @ (if wc_deleted wc then '' = 'D' THEN '' else '' != 'D' THEN '')
       @ render_action (wc_action wc)"

definition render_merge :: "dedup_merge \<Rightarrow> string" where
  "render_merge m =
     join nl
       [''MERGE INTO '' @ target m @ '' AS T USING'',
        tab ''('',
        tab (tab ''SELECT * EXCEPT(row_num)''),
        tab (tab ''FROM (''),
        tab (tab (tab ''SELECT'')),
        tab (tab (tab (tab
          (''*, row_number() over (partition by '' @ join '', '' (partition_by m)
             @ '' order by '' @ order_desc m @ '' desc) as row_num'')))),
        tab (tab (tab (''FROM '' @ source m))),
        tab (tab '')''),
        tab (tab ''WHERE row_num = 1''),
        tab '') AS S'',
        tab ''ON'',
        tab ''('',
        tab (tab (join '' AND '' (map (\<lambda>c. ''T.'' @ c @ '' = S.'' @ c) (on_cols m)))),
        tab '')'']
     @ concat (map (\<lambda>wc. nl @ tab (render_clause (flag_col m) wc)) (clauses m))
     @ '';''"

text \<open>A BigQuery table reference, a dataset and a table between backticks.\<close>

definition bq_table :: "string \<Rightarrow> string \<Rightarrow> string" where
  "bq_table dataset tbl = ''`'' @ dataset @ ''.'' @ tbl @ ''`''"

text \<open>A primary-key column, and a column outside the key.\<close>

definition is_pk :: "TableCol \<Rightarrow> bool" where
  "is_pk col \<longleftrightarrow> IsPK col = ''true''"

definition non_key :: "TableCol \<Rightarrow> bool" where
  "non_key col \<longleftrightarrow> \<not> is_pk col"

subsection \<open>Diff items and the statements they give\<close>

text \<open>
  The items that the specification lets produce a statement (Add, Drop, Rename), the
  items that are not Unchanged, and the items whose action finds the column it reads.
\<close>

definition emits_ddl :: "ColumnDiff \<Rightarrow> bool" where
  "emits_ddl item \<longleftrightarrow>
     Action item = ADD_COLUMN \<or> Action item = DROP_COLUMN \<or> Action item = RENAME_COLUMN"

definition changed :: "ColumnDiff \<Rightarrow> bool" where
  "changed item \<longleftrightarrow> Action item \<noteq> UNCHANGE"

definition operands_present :: "ColumnDiff \<Rightarrow> bool" where
  "operands_present item \<longleftrightarrow>
     (Action item = ADD_COLUMN \<longrightarrow> After item \<noteq> None) \<and>
     (Action item = DROP_COLUMN \<longrightarrow> Before item \<noteq> None) \<and>
     (Action item = RENAME_COLUMN \<longrightarrow> Before item \<noteq> None \<and> After item \<noteq> None)"

text \<open>
  A returned statement originates from a diff item when it is the text that the loop body
  builds for that item, with the semicolon.
\<close>

definition statement_of ::
  "(TableCol \<Rightarrow> error + string) \<Rightarrow> string \<Rightarrow> string \<Rightarrow> ColumnDiff \<Rightarrow> bool" where
  "statement_of ts tbl ddl item \<longleftrightarrow>
     (case ddl_of_item ts tbl item of
        Ok body \<Rightarrow> body \<noteq> [] \<and> ddl = body @ '';''
      | Err err \<Rightarrow> False
      | NilPanic \<Rightarrow> False)"

subsection \<open>Markers, stages and run modes\<close>

text \<open>
  The three markers in the order of the specification, the four stages in their order,
  and the number of markers found before the first one that is not found. A marker is
  found when the probe reports existence and no error.
\<close>

definition markers :: "string list" where
  "markers = [''increment/metadata'', ''snapshot/metadata'', ''snapshot/loadinfo'']"

definition stage_order :: "Stage list" where
  "stage_order =
     [StageInit, StageChangefeedCreated, StageSnapshotDumped, StageSnapshotLoaded]"

definition marker_found :: "Storage \<Rightarrow> string \<Rightarrow> bool" where
  "marker_found st path \<longleftrightarrow> FileExists st path = (True, None)"

definition markers_found :: "Storage \<Rightarrow> nat" where
  "markers_found st = length (takeWhile (marker_found st) markers)"

text \<open>The message that goes with a failed probe of each marker.\<close>

definition check_messages :: "string list" where
  "check_messages =
     [''Failed to check increment metadata'', ''Failed to check snapshot metadata'',
      ''Failed to check snapshot loadinfo'']"

text \<open>
  The entry stage and every later stage, in order; the operations that make up the
  action of a stage; and the stage actions that a run mode skips, in the words of the
  specification: snapshot-only and cloud skip the change-capture setup, incremental-only
  and cloud skip the snapshot dump, incremental-only skips the snapshot load,
  snapshot-only skips the incremental replay.
\<close>

definition stages_from :: "Stage \<Rightarrow> Stage list" where
  "stages_from stage = dropWhile (\<lambda>s. s \<noteq> stage) stage_order"

fun stage_action :: "nat \<Rightarrow> Stage \<Rightarrow> call list" where
  "stage_action tso StageInit = [NewCDCConnector_call tso, CreateChangefeed_call]"
| "stage_action tso StageChangefeedCreated = [RunDump_call tso]"
| "stage_action tso StageSnapshotDumped = [StartReplicateSnapshot_call]"
| "stage_action tso StageSnapshotLoaded = [StartReplicateIncrement_call]"

fun skipped :: "RunMode \<Rightarrow> Stage \<Rightarrow> bool" where
  "skipped mode StageInit \<longleftrightarrow> mode = RunModeSnapshotOnly \<or> mode = RunModeCloud"
| "skipped mode StageChangefeedCreated \<longleftrightarrow> mode = RunModeIncrementalOnly \<or> mode = RunModeCloud"
| "skipped mode StageSnapshotDumped \<longleftrightarrow> mode = RunModeIncrementalOnly"
| "skipped mode StageSnapshotLoaded \<longleftrightarrow> mode = RunModeSnapshotOnly"

text \<open>
  The start position is asked for in mode full only; it is zero in the other modes.
\<close>

definition position_calls :: "RunMode \<Rightarrow> call list" where
  "position_calls mode = (if mode = RunModeFull then [GetCurrentTSO_call] else [])"

definition start_position :: "Env \<Rightarrow> RunMode \<Rightarrow> nat" where
  "start_position env mode = (if mode = RunModeFull then fst (GetCurrentTSO env) else 0)"

text \<open>No operation of the run fails: "assuming no action fails" in the specification.\<close>

definition all_succeed :: "Env \<Rightarrow> string \<Rightarrow> bool" where
  "all_succeed env storagePath \<longleftrightarrow>
     snd (GetCurrentTSO env) = None \<and>
     snd (snd (genURI env storagePath)) = None \<and>
     NewCDCConnector env = None \<and> CreateChangefeed env = None \<and> RunDump env = None \<and>
     StartReplicateSnapshot env = None \<and> StartReplicateIncrement env = None"


section \<open>Concrete inputs\<close>

text \<open>A table with a key column and a plain column, and a table with no key.\<close>

definition example_table :: TableDefinition where
  "example_table =
     \<lparr>Table = ''orders'', Schema = ''shop'', Type = ActionOther 0,
      Columns =
        [\<lparr>Name = ''id'', Tp = ''INT'', Nullable = ''false'', IsPK = ''true''\<rparr>,
         \<lparr>Name = ''v'', Tp = ''VARCHAR'', Nullable = ''true'', IsPK = ''false''\<rparr>]\<rparr>"

definition keyless_table :: TableDefinition where
  "keyless_table =
     \<lparr>Table = ''log'', Schema = ''shop'', Type = ActionOther 0,
      Columns =
        [\<lparr>Name = ''msg'', Tp = ''VARCHAR'', Nullable = ''true'', IsPK = ''false''\<rparr>]\<rparr>"

text \<open>
  A table definition of a given change type; a diff that fails when it is called and a
  diff that returns given items; a type mapping; diff items of every action.
\<close>

definition sample_col :: "string \<Rightarrow> TableCol" where
  "sample_col n = \<lparr>Name = n, Tp = ''INT'', Nullable = ''false'', IsPK = ''false''\<rparr>"

definition sample_def :: "ActionType \<Rightarrow> TableDefinition" where
  "sample_def ty =
     \<lparr>Table = ''orders'', Schema = ''shop'', Type = ty, Columns = [sample_col ''id'']\<rparr>"

definition failing_diff :: "TableCol list \<Rightarrow> TableCol list \<Rightarrow> error + ColumnDiff list" where
  "failing_diff prev cur = Inl (ErrorsNew ''column diff invoked'')"

definition fixed_diff ::
  "ColumnDiff list \<Rightarrow> TableCol list \<Rightarrow> TableCol list \<Rightarrow> error + ColumnDiff list" where
  "fixed_diff items prev cur = Inr items"

definition int_type :: "TableCol \<Rightarrow> error + string" where
  "int_type col = Inr ''INT''"


definition unchanged_items :: "ColumnDiff list" where
  "unchanged_items =
     [\<lparr>Action = UNCHANGE, Before = Some (sample_col ''id''), After = Some (sample_col ''id'')\<rparr>]"

definition modify_items :: "ColumnDiff list" where
  "modify_items =
     [\<lparr>Action = ADD_COLUMN, Before = None, After = Some (sample_col ''qty'')\<rparr>,
      \<lparr>Action = MODIFY_COLUMN, Before = Some (sample_col ''id''), After = Some (sample_col ''id'')\<rparr>]"

text \<open>
  A storage that holds the given markers, an environment over it in which every operation
  succeeds, and a storage whose probes fail after the first marker.
\<close>

definition store_with :: "string list \<Rightarrow> Storage" where
  "store_with present =
     \<lparr>GetExternalStorage = None, FileExists = (\<lambda>path. (path \<in> set present, None))\<rparr>"

definition healthy_env :: "string list \<Rightarrow> Env" where
  "healthy_env present =
     \<lparr>storage = store_with present,
      GetCurrentTSO = (7, None),
      url_JoinPath = (\<lambda>base elem. Inr (base @ ''/'' @ elem)),
      url_Parse = Inr,
      NewCDCConnector = None, CreateChangefeed = None, RunDump = None,
      StartReplicateSnapshot = None, StartReplicateIncrement = None\<rparr>"

definition failing_store :: Storage where
  "failing_store =
     \<lparr>GetExternalStorage = None,
      FileExists = (\<lambda>path. if path = ''increment/metadata'' then (True, None)
                             else (False, Some (ErrorsNew ''connection reset'')))\<rparr>"


section \<open>GenMergeInto: the text it builds\<close>

lemma foldl_pk_step:
  "foldl pk_step (pk, on) cols =
     (pk @ map Name (filter is_pk cols),
      on @ map (\<lambda>c. ''T.'' @ Name c @ '' = S.'' @ Name c) (filter is_pk cols))"
  by (induction cols arbitrary: pk on) (simp_all add: pk_step_def is_pk_def)

lemma foldl_append_each: "foldl (\<lambda>acc x. acc @ [f x]) acc xs = acc @ map f xs"
  by (induction xs arbitrary: acc) simp_all

lemma updateStat_all: "updateStat cols = map (\<lambda>c. Name c @ '' = S.'' @ Name c) cols"
  by (simp add: updateStat_def foldl_append_each)

lemma insertStat_all: "insertStat cols = map Name cols"
  by (simp add: insertStat_def foldl_append_each)

lemma valuesStat_all: "valuesStat cols = map (\<lambda>c. ''S.'' @ Name c) cols"
  by (simp add: valuesStat_def foldl_append_each)

lemma sprintf_mergeFormat:
  "sprintf mergeFormat [tgt, part, ord, src, on, f1, upd, f2, f3, ins, vals] =
     join nl
       [''MERGE INTO '' @ tgt @ '' AS T USING'',
        tab ''('',
        tab (tab ''SELECT * EXCEPT(row_num)''),
        tab (tab ''FROM (''),
        tab (tab (tab ''SELECT'')),
        tab (tab (tab (tab
          (''*, row_number() over (partition by '' @ part
             @ '' order by '' @ ord @ '' desc) as row_num'')))),
        tab (tab (tab (''FROM '' @ src))),
        tab (tab '')''),
        tab (tab ''WHERE row_num = 1''),
        tab '') AS S'',
        tab ''ON'',
        tab ''('',
        tab (tab on),
        tab '')'',
        tab (''WHEN MATCHED AND S.'' @ f1 @ '' != 'D' THEN UPDATE SET '' @ upd),
        tab (''WHEN MATCHED AND S.'' @ f2 @ '' = 'D' THEN DELETE''),
        tab (''WHEN NOT MATCHED AND S.'' @ f3 @ '' != 'D' THEN INSERT ('' @ ins
               @ '') VALUES ('' @ vals @ '');'')]"
  by (simp add: mergeFormat_def nl_def tab_def)

lemma GenMergeInto_text:
  "GenMergeInto cts flag tableDef ds tid ext =
     render_merge
       \<lparr>target = bq_table ds tid,
        partition_by = map Name (filter is_pk (Columns tableDef)),
        order_desc = cts,
        source = bq_table ds ext,
        on_cols = map Name (filter is_pk (Columns tableDef)),
        flag_col = flag,
        clauses =
          [\<lparr>wc_matched = True, wc_deleted = False,
            wc_action = UpdateSet (map Name (Columns tableDef))\<rparr>,
           \<lparr>wc_matched = True, wc_deleted = True, wc_action = DeleteRow\<rparr>,
           \<lparr>wc_matched = False, wc_deleted = False,
            wc_action = InsertRow (map Name (Columns tableDef))\<rparr>]\<rparr>"
  by (simp add: GenMergeInto_def foldl_pk_step sprintf_mergeFormat updateStat_all
        insertStat_all valuesStat_all render_merge_def render_clause_def bq_table_def
        nl_def tab_def comp_def)

text \<open>
  Claim C1. For every table definition with at least one primary-key column and every
  batch location, the text built by \<^verbatim>\<open>GenMergeInto\<close> is the rendering of a statement that
  ranks the raw change-log rows with \<^verbatim>\<open>row_number()\<close> over the partitions of the primary-key
  columns, ordered descending by the commit-timestamp column, keeps the rows of rank 1
  and joins them with the target on the primary-key columns. The list of partition
  columns is not empty. The statement has exactly three clauses: a matched row whose
  flag is not \<^verbatim>\<open>'D'\<close> updates, a matched row whose flag is \<^verbatim>\<open>'D'\<close> deletes, an unmatched row
  whose flag is not \<^verbatim>\<open>'D'\<close> inserts; there is no clause for an unmatched row whose flag
  is \<^verbatim>\<open>'D'\<close>. The update assigns, and the insert writes, the columns of the table
  definition, all of them and in their order, a list that is not empty.
\<close>

theorem GenMergeInto_dedup_three_way:
  assumes "\<exists>col \<in> set (Columns tableDef). IsPK col = ''true''"
  shows "map Name (filter is_pk (Columns tableDef)) \<noteq> [] \<and>
         map Name (Columns tableDef) \<noteq> [] \<and>
         GenMergeInto cts flag tableDef ds tid ext =
           render_merge
             \<lparr>target = bq_table ds tid,
              partition_by = map Name (filter is_pk (Columns tableDef)),
              order_desc = cts,
              source = bq_table ds ext,
              on_cols = map Name (filter is_pk (Columns tableDef)),
              flag_col = flag,
              clauses =
                [\<lparr>wc_matched = True, wc_deleted = False,
                  wc_action = UpdateSet (map Name (Columns tableDef))\<rparr>,
                 \<lparr>wc_matched = True, wc_deleted = True, wc_action = DeleteRow\<rparr>,
                 \<lparr>wc_matched = False, wc_deleted = False,
                  wc_action = InsertRow (map Name (Columns tableDef))\<rparr>]\<rparr>"
proof (intro conjI)
  from assms obtain col where col: "col \<in> set (Columns tableDef)" "is_pk col"
    by (auto simp: is_pk_def)
  then have "filter is_pk (Columns tableDef) \<noteq> []"
    by (auto simp: filter_empty_conv)
  then show "map Name (filter is_pk (Columns tableDef)) \<noteq> []"
    by simp
  from col(1) have "Columns tableDef \<noteq> []"
    by auto
  then show "map Name (Columns tableDef) \<noteq> []"
    by simp
next
  show "GenMergeInto cts flag tableDef ds tid ext =
           render_merge
             \<lparr>target = bq_table ds tid,
              partition_by = map Name (filter is_pk (Columns tableDef)),
              order_desc = cts,
              source = bq_table ds ext,
              on_cols = map Name (filter is_pk (Columns tableDef)),
              flag_col = flag,
              clauses =
                [\<lparr>wc_matched = True, wc_deleted = False,
                  wc_action = UpdateSet (map Name (Columns tableDef))\<rparr>,
                 \<lparr>wc_matched = True, wc_deleted = True, wc_action = DeleteRow\<rparr>,
                 \<lparr>wc_matched = False, wc_deleted = False,
                  wc_action = InsertRow (map Name (Columns tableDef))\<rparr>]\<rparr>"
    by (rule GenMergeInto_text)
qed

theorem GenMergeInto_dedup_three_way_witness:
  "(\<exists>col \<in> set (Columns example_table). IsPK col = ''true'') \<and>
   map Name (filter is_pk (Columns example_table)) = [''id''] \<and>
   map Name (Columns example_table) = [''id'', ''v''] \<and>
   GenMergeInto ''commit_ts'' ''flag'' example_table ''ds'' ''orders'' ''orders_ext'' =
     render_merge
       \<lparr>target = bq_table ''ds'' ''orders'',
        partition_by = [''id''],
        order_desc = ''commit_ts'',
        source = bq_table ''ds'' ''orders_ext'',
        on_cols = [''id''],
        flag_col = ''flag'',
        clauses =
          [\<lparr>wc_matched = True, wc_deleted = False, wc_action = UpdateSet [''id'', ''v'']\<rparr>,
           \<lparr>wc_matched = True, wc_deleted = True, wc_action = DeleteRow\<rparr>,
           \<lparr>wc_matched = False, wc_deleted = False, wc_action = InsertRow [''id'', ''v'']\<rparr>]\<rparr>"
  using GenMergeInto_dedup_three_way
          [of example_table "''commit_ts''" "''flag''" "''ds''" "''orders''" "''orders_ext''"]
  by (simp add: example_table_def is_pk_def)

text \<open>
  Claim C2, as amended. For every table definition containing at least one primary-key
  column, the UPDATE branch of the statement synthesized by \<^verbatim>\<open>GenMergeInto\<close> assigns every
  column of the table definition from the deduplicated source \<open>S\<close>, in column order;
  the primary-key columns are in the SET list.
\<close>

theorem GenMergeInto_update_sets_every_column:
  assumes "\<exists>col \<in> set (Columns tableDef). IsPK col = ''true''"
  shows "GenMergeInto cts flag tableDef ds tid ext =
           render_merge
             \<lparr>target = bq_table ds tid,
              partition_by = map Name (filter is_pk (Columns tableDef)),
              order_desc = cts,
              source = bq_table ds ext,
              on_cols = map Name (filter is_pk (Columns tableDef)),
              flag_col = flag,
              clauses =
                [\<lparr>wc_matched = True, wc_deleted = False,
                  wc_action = UpdateSet (map Name (Columns tableDef))\<rparr>,
                 \<lparr>wc_matched = True, wc_deleted = True, wc_action = DeleteRow\<rparr>,
                 \<lparr>wc_matched = False, wc_deleted = False,
                  wc_action = InsertRow (map Name (Columns tableDef))\<rparr>]\<rparr>
         \<and> (\<exists>col \<in> set (Columns tableDef).
               is_pk col \<and> Name col \<in> set (map Name (Columns tableDef)))"
  using assms GenMergeInto_text [of cts flag tableDef ds tid ext]
  by (auto simp: is_pk_def)

theorem GenMergeInto_update_sets_every_column_witness:
  "(\<exists>col \<in> set (Columns example_table). IsPK col = ''true'') \<and>
   GenMergeInto ''commit_ts'' ''flag'' example_table ''ds'' ''orders'' ''orders_ext'' =
     render_merge
       \<lparr>target = bq_table ''ds'' ''orders'',
        partition_by = [''id''],
        order_desc = ''commit_ts'',
        source = bq_table ''ds'' ''orders_ext'',
        on_cols = [''id''],
        flag_col = ''flag'',
        clauses =
          [\<lparr>wc_matched = True, wc_deleted = False, wc_action = UpdateSet [''id'', ''v'']\<rparr>,
           \<lparr>wc_matched = True, wc_deleted = True, wc_action = DeleteRow\<rparr>,
           \<lparr>wc_matched = False, wc_deleted = False, wc_action = InsertRow [''id'', ''v'']\<rparr>]\<rparr>"
  using GenMergeInto_update_sets_every_column
          [of example_table "''commit_ts''" "''flag''" "''ds''" "''orders''" "''orders_ext''"]
  by (simp add: example_table_def is_pk_def)

text \<open>
  As first stated, with a SET list of the non-key columns only, the claim fails on the
  table with the key column \<open>id\<close> and the column \<open>v\<close>: the text is not the rendering
  of the statement whose SET list is \<open>v\<close> alone.
\<close>

theorem GenMergeInto_update_non_key_only_counterexample:
  "is_pk (Columns example_table ! 0) \<and>
   map Name (filter non_key (Columns example_table)) = [''v''] \<and>
   GenMergeInto ''commit_ts'' ''flag'' example_table ''ds'' ''orders'' ''orders_ext'' \<noteq>
     render_merge
       \<lparr>target = bq_table ''ds'' ''orders'',
        partition_by = map Name (filter is_pk (Columns example_table)),
        order_desc = ''commit_ts'',
        source = bq_table ''ds'' ''orders_ext'',
        on_cols = map Name (filter is_pk (Columns example_table)),
        flag_col = ''flag'',
        clauses =
          [\<lparr>wc_matched = True, wc_deleted = False,
            wc_action = UpdateSet (map Name (filter non_key (Columns example_table)))\<rparr>,
           \<lparr>wc_matched = True, wc_deleted = True, wc_action = DeleteRow\<rparr>,
           \<lparr>wc_matched = False, wc_deleted = False,
            wc_action = InsertRow (map Name (Columns example_table))\<rparr>]\<rparr>"
  by (simp add: GenMergeInto_text example_table_def is_pk_def non_key_def render_merge_def
        render_clause_def bq_table_def nl_def tab_def)

text \<open>
  Claim C10. \<^verbatim>\<open>GenMergeInto\<close> returns a merge statement for every table definition: the
  model has no failing branch because the code has none. When no column has \<open>IsPK\<close> equal
  to \<^verbatim>\<open>"true"\<close>, the partition list and the join condition are rendered as empty strings:
  the text reads \<^verbatim>\<open>partition by  order by\<close> and the line between the parentheses after
  \<^verbatim>\<open>ON\<close> holds two tabs and nothing else.
\<close>

theorem GenMergeInto_without_primary_key:
  assumes "\<forall>col \<in> set (Columns tableDef). IsPK col \<noteq> ''true''"
  shows "(\<exists>m. GenMergeInto cts flag tableDef ds tid ext = render_merge m
              \<and> partition_by m = [] \<and> on_cols m = [])
         \<and> GenMergeInto cts flag tableDef ds tid ext =
             join nl
               [''MERGE INTO `'' @ ds @ ''.'' @ tid @ ''` AS T USING'',
                tab ''('',
                tab (tab ''SELECT * EXCEPT(row_num)''),
                tab (tab ''FROM (''),
                tab (tab (tab ''SELECT'')),
                tab (tab (tab (tab
                  (''*, row_number() over (partition by  order by '' @ cts
                     @ '' desc) as row_num'')))),
                tab (tab (tab (''FROM `'' @ ds @ ''.'' @ ext @ ''`''))),
                tab (tab '')''),
                tab (tab ''WHERE row_num = 1''),
                tab '') AS S'',
                tab ''ON'',
                tab ''('',
                tab (tab ''''),
                tab '')'',
                tab (''WHEN MATCHED AND S.'' @ flag @ '' != 'D' THEN UPDATE SET ''
                       @ join '', '' (map (\<lambda>c. Name c @ '' = S.'' @ Name c) (Columns tableDef))),
                tab (''WHEN MATCHED AND S.'' @ flag @ '' = 'D' THEN DELETE''),
                tab (''WHEN NOT MATCHED AND S.'' @ flag @ '' != 'D' THEN INSERT (''
                       @ join '', '' (map Name (Columns tableDef)) @ '') VALUES (''
                       @ join '', '' (map (\<lambda>c. ''S.'' @ Name c) (Columns tableDef)) @ '');'')]"
proof -
  from assms have nokey: "filter is_pk (Columns tableDef) = []"
    by (simp add: filter_empty_conv is_pk_def)
  have shape: "GenMergeInto cts flag tableDef ds tid ext =
     render_merge
       \<lparr>target = bq_table ds tid, partition_by = [], order_desc = cts,
        source = bq_table ds ext, on_cols = [], flag_col = flag,
        clauses =
          [\<lparr>wc_matched = True, wc_deleted = False,
            wc_action = UpdateSet (map Name (Columns tableDef))\<rparr>,
           \<lparr>wc_matched = True, wc_deleted = True, wc_action = DeleteRow\<rparr>,
           \<lparr>wc_matched = False, wc_deleted = False,
            wc_action = InsertRow (map Name (Columns tableDef))\<rparr>]\<rparr>"
    using GenMergeInto_text [of cts flag tableDef ds tid ext] by (simp add: nokey)
  have first: "\<exists>m. GenMergeInto cts flag tableDef ds tid ext = render_merge m
              \<and> partition_by m = [] \<and> on_cols m = []"
    by (rule exI, rule conjI, rule shape) simp
  show ?thesis
    by (rule conjI, rule first)
       (simp add: shape render_merge_def render_clause_def bq_table_def nl_def tab_def comp_def)
qed

theorem GenMergeInto_without_primary_key_witness:
  "filter is_pk (Columns keyless_table) = [] \<and>
   GenMergeInto ''commit_ts'' ''flag'' keyless_table ''ds'' ''log'' ''log_ext'' =
     join nl
       [''MERGE INTO `ds.log` AS T USING'',
        tab ''('',
        tab (tab ''SELECT * EXCEPT(row_num)''),
        tab (tab ''FROM (''),
        tab (tab (tab ''SELECT'')),
        tab (tab (tab (tab
          ''*, row_number() over (partition by  order by commit_ts desc) as row_num''))),
        tab (tab (tab ''FROM `ds.log_ext`'')),
        tab (tab '')''),
        tab (tab ''WHERE row_num = 1''),
        tab '') AS S'',
        tab ''ON'',
        tab ''('',
        tab (tab ''''),
        tab '')'',
        tab ''WHEN MATCHED AND S.flag != 'D' THEN UPDATE SET msg = S.msg'',
        tab ''WHEN MATCHED AND S.flag = 'D' THEN DELETE'',
        tab ''WHEN NOT MATCHED AND S.flag != 'D' THEN INSERT (msg) VALUES (S.msg);'']"
  using GenMergeInto_without_primary_key
          [of keyless_table "''commit_ts''" "''flag''" "''ds''" "''log''" "''log_ext''"]
  by (simp add: keyless_table_def is_pk_def)


section \<open>GenDDLViaColumnsDiff: the statements it returns\<close>

lemma ddl_of_item_Ok_nonempty:
  "ddl_of_item ts tbl item = Ok body \<Longrightarrow> (body \<noteq> []) = emits_ddl item"
  by (auto simp: ddl_of_item_def emits_ddl_def
           split: ColumnDiffType.splits option.splits sum.splits)

lemma ddl_of_item_Ok_not_modify:
  "ddl_of_item ts tbl item = Ok body \<Longrightarrow> Action item \<noteq> MODIFY_COLUMN"
  by (auto simp: ddl_of_item_def)

lemma ddl_loop_Ok:
  "ddl_loop ts tbl items acc = Ok ddls \<Longrightarrow>
     \<exists>new. ddls = acc @ new
        \<and> length new = length (filter emits_ddl items)
        \<and> list_all2 (statement_of ts tbl) new (filter changed items)
        \<and> (\<forall>item \<in> set items. Action item \<noteq> MODIFY_COLUMN)"
proof (induction items arbitrary: acc)
  case Nil
  then show ?case by simp
next
  case (Cons item items)
  from Cons.prems obtain body where body: "ddl_of_item ts tbl item = Ok body"
    by (auto split: go_result.splits)
  note nm = ddl_of_item_Ok_not_modify [OF body]
  note ne = ddl_of_item_Ok_nonempty [OF body]
  show ?case
  proof (cases "body = []")
    case True
    with Cons.prems body have "ddl_loop ts tbl items acc = Ok ddls" by simp
    from Cons.IH [OF this] obtain new where new: "ddls = acc @ new"
        "length new = length (filter emits_ddl items)"
        "list_all2 (statement_of ts tbl) new (filter changed items)"
        "\<forall>item \<in> set items. Action item \<noteq> MODIFY_COLUMN"
      by blast
    from True ne have "\<not> emits_ddl item" by simp
    moreover from this nm have "\<not> changed item"
      by (cases "Action item") (auto simp: emits_ddl_def changed_def)
    ultimately show ?thesis using new nm by auto
  next
    case False
    with Cons.prems body have "ddl_loop ts tbl items (acc @ [body @ '';'']) = Ok ddls" by simp
    from Cons.IH [OF this] obtain new where new: "ddls = (acc @ [body @ '';'']) @ new"
        "length new = length (filter emits_ddl items)"
        "list_all2 (statement_of ts tbl) new (filter changed items)"
        "\<forall>item \<in> set items. Action item \<noteq> MODIFY_COLUMN"
      by blast
    from False ne have e: "emits_ddl item" by simp
    then have c: "changed item" by (auto simp: emits_ddl_def changed_def)
    have s: "statement_of ts tbl (body @ '';'') item"
      using body False by (simp add: statement_of_def)
    show ?thesis
      by (rule exI [of _ "(body @ '';'') # new"]) (use new e c s nm in simp)
  qed
qed

lemma ddl_loop_modify_not_Ok:
  "\<exists>item \<in> set items. Action item = MODIFY_COLUMN \<Longrightarrow> ddl_loop ts tbl items acc \<noteq> Ok ddls"
  using ddl_loop_Ok [of ts tbl items acc ddls] by blast

lemma ddl_of_item_no_panic:
  "operands_present item \<Longrightarrow> ddl_of_item ts tbl item \<noteq> NilPanic"
  by (auto simp: ddl_of_item_def operands_present_def
           split: ColumnDiffType.splits option.splits sum.splits)

lemma ddl_loop_no_panic:
  "\<forall>item \<in> set items. operands_present item \<Longrightarrow> ddl_loop ts tbl items acc \<noteq> NilPanic"
proof (induction items arbitrary: acc)
  case Nil
  then show ?case by simp
next
  case (Cons item items)
  then have "ddl_of_item ts tbl item \<noteq> NilPanic"
    by (simp add: ddl_of_item_no_panic)
  with Cons show ?case
    by (cases "ddl_of_item ts tbl item") simp_all
qed

lemma reaches_diff:
  assumes "Type td \<noteq> ActionTruncateTable" "Type td \<noteq> ActionDropTable"
    "Type td \<noteq> ActionDropSchema" "GetColumnDiff prev (Columns td) = Inr items"
  shows "GenDDLViaColumnsDiff GetColumnDiff ts prev td = ddl_loop ts (Table td) items []
         \<or> (\<exists>e. GenDDLViaColumnsDiff GetColumnDiff ts prev td = Err e)"
  using assms by (simp add: GenDDLViaColumnsDiff_def)

text \<open>
  Claim C6. When the change type is truncate-table, drop-table or drop-schema,
  \<^verbatim>\<open>GenDDLViaColumnsDiff\<close> returns exactly one statement (\<^verbatim>\<open>TRUNCATE TABLE\<close>, \<^verbatim>\<open>DROP TABLE\<close>,
  \<^verbatim>\<open>DROP SCHEMA ... CASCADE\<close>), and the result is the same for every diff function, every
  type mapping and all column lists: the column diff is not consulted.
\<close>

theorem GenDDLViaColumnsDiff_table_level:
  "(Type td = ActionTruncateTable \<longrightarrow>
      GenDDLViaColumnsDiff diff ts prev td = Ok [''TRUNCATE TABLE '' @ Table td]) \<and>
   (Type td = ActionDropTable \<longrightarrow>
      GenDDLViaColumnsDiff diff ts prev td = Ok [''DROP TABLE '' @ Table td]) \<and>
   (Type td = ActionDropSchema \<longrightarrow>
      GenDDLViaColumnsDiff diff ts prev td = Ok [''DROP SCHEMA '' @ Schema td @ '' CASCADE'']) \<and>
   (Type td = ActionTruncateTable \<or> Type td = ActionDropTable \<or> Type td = ActionDropSchema \<longrightarrow>
      GenDDLViaColumnsDiff diff ts prev td =
        GenDDLViaColumnsDiff diff' ts' prev' (td\<lparr>Columns := cols'\<rparr>))"
  by (simp add: GenDDLViaColumnsDiff_def)

theorem GenDDLViaColumnsDiff_table_level_witness:
  "GenDDLViaColumnsDiff failing_diff int_type [] (sample_def ActionTruncateTable)
     = Ok [''TRUNCATE TABLE orders''] \<and>
   GenDDLViaColumnsDiff failing_diff int_type [] (sample_def ActionDropTable)
     = Ok [''DROP TABLE orders''] \<and>
   GenDDLViaColumnsDiff failing_diff int_type [] (sample_def ActionDropSchema)
     = Ok [''DROP SCHEMA shop CASCADE'']"
  using GenDDLViaColumnsDiff_table_level
          [where td = "sample_def ActionTruncateTable" and diff = failing_diff
             and ts = int_type and prev = "[]"]
        GenDDLViaColumnsDiff_table_level
          [where td = "sample_def ActionDropTable" and diff = failing_diff
             and ts = int_type and prev = "[]"]
        GenDDLViaColumnsDiff_table_level
          [where td = "sample_def ActionDropSchema" and diff = failing_diff
             and ts = int_type and prev = "[]"]
  by (simp add: sample_def_def)

text \<open>
  What the code rejects. \<^verbatim>\<open>GenDDLViaColumnsDiff\<close> fails with an error and returns no
  statement when the change type is create-table, create-schema or the rename of several
  tables (\<^verbatim>\<open>ActionRenameTables\<close>), and whenever the column diff it has computed contains a
  Modify item. With a Modify item the function never returns statements; it returns an
  error, provided that the diff items carry the columns their actions read (otherwise an
  item before the Modify item can make the function panic).
\<close>

theorem GenDDLViaColumnsDiff_unsupported:
  "(Type td = ActionCreateTable \<longrightarrow>
      GenDDLViaColumnsDiff diff ts prev td =
        Err (ErrorsNew ''Received create table ddl, which should not happen'')) \<and>
   (Type td = ActionCreateSchema \<longrightarrow>
      GenDDLViaColumnsDiff diff ts prev td =
        Err (ErrorsNew ''Received create schema ddl, which should not happen'')) \<and>
   (Type td = ActionRenameTables \<longrightarrow>
      (\<exists>msg. GenDDLViaColumnsDiff diff ts prev td = Err (ErrorsNew msg))) \<and>
   (Type td \<noteq> ActionTruncateTable \<and> Type td \<noteq> ActionDropTable \<and> Type td \<noteq> ActionDropSchema
      \<and> diff prev (Columns td) = Inr items
      \<and> (\<exists>item \<in> set items. Action item = MODIFY_COLUMN) \<longrightarrow>
        (\<forall>ddls. GenDDLViaColumnsDiff diff ts prev td \<noteq> Ok ddls) \<and>
        ((\<forall>item \<in> set items. operands_present item) \<longrightarrow>
           (\<exists>e. GenDDLViaColumnsDiff diff ts prev td = Err e)))"
proof (intro conjI impI allI)
  assume h: "Type td \<noteq> ActionTruncateTable \<and> Type td \<noteq> ActionDropTable
      \<and> Type td \<noteq> ActionDropSchema \<and> diff prev (Columns td) = Inr items
      \<and> (\<exists>item \<in> set items. Action item = MODIFY_COLUMN)"
  then have r: "GenDDLViaColumnsDiff diff ts prev td = ddl_loop ts (Table td) items []
         \<or> (\<exists>e. GenDDLViaColumnsDiff diff ts prev td = Err e)"
    by (simp add: reaches_diff)
  from h have m: "\<exists>item \<in> set items. Action item = MODIFY_COLUMN" by simp
  show "GenDDLViaColumnsDiff diff ts prev td \<noteq> Ok ddls" for ddls
    using r ddl_loop_modify_not_Ok [OF m, of ts "Table td" "[]" ddls] by auto
  assume "\<forall>item \<in> set items. operands_present item"
  then have "ddl_loop ts (Table td) items [] \<noteq> NilPanic"
    by (rule ddl_loop_no_panic)
  with r ddl_loop_modify_not_Ok [OF m, of ts "Table td" "[]"]
  show "\<exists>e. GenDDLViaColumnsDiff diff ts prev td = Err e"
    by (cases "ddl_loop ts (Table td) items []") auto
qed (simp_all add: GenDDLViaColumnsDiff_def)

theorem GenDDLViaColumnsDiff_unsupported_witness:
  "GenDDLViaColumnsDiff failing_diff int_type [] (sample_def ActionCreateTable) =
     Err (ErrorsNew ''Received create table ddl, which should not happen'') \<and>
   GenDDLViaColumnsDiff failing_diff int_type [] (sample_def ActionCreateSchema) =
     Err (ErrorsNew ''Received create schema ddl, which should not happen'') \<and>
   (\<exists>msg. GenDDLViaColumnsDiff failing_diff int_type [] (sample_def ActionRenameTables) =
     Err (ErrorsNew msg)) \<and>
   (\<exists>item \<in> set modify_items. Action item = MODIFY_COLUMN) \<and>
   list_all operands_present modify_items \<and>
   (\<forall>ddls. GenDDLViaColumnsDiff (fixed_diff modify_items) int_type [] (sample_def (ActionOther 12))
       \<noteq> Ok ddls) \<and>
   (\<exists>e. GenDDLViaColumnsDiff (fixed_diff modify_items) int_type [] (sample_def (ActionOther 12))
       = Err e)"
  using GenDDLViaColumnsDiff_unsupported
          [where td = "sample_def ActionCreateTable" and diff = failing_diff
             and ts = int_type and prev = "[]"]
        GenDDLViaColumnsDiff_unsupported
          [where td = "sample_def ActionCreateSchema" and diff = failing_diff
             and ts = int_type and prev = "[]"]
        GenDDLViaColumnsDiff_unsupported
          [where td = "sample_def ActionRenameTables" and diff = failing_diff
             and ts = int_type and prev = "[]"]
        GenDDLViaColumnsDiff_unsupported
          [where td = "sample_def (ActionOther 12)" and diff = "fixed_diff modify_items"
             and ts = int_type and prev = "[]" and items = modify_items]
  by (simp add: sample_def_def fixed_diff_def modify_items_def operands_present_def list_all_iff)

text \<open>
  Claim C7. The claim asks that \<^verbatim>\<open>GenDDLViaColumnsDiff\<close> fail, with no statement, for the
  change types create-table, create-schema and rename-table and for a Modify item. The
  code does so for all of them but the rename of one table: its test names
  \<^verbatim>\<open>ActionRenameTables\<close> alone, although the error it returns there reads "Received rename
  table ddl". A table definition of type \<^verbatim>\<open>ActionRenameTable\<close> whose columns did not change
  passes every test, reaches the column diff and comes back as an empty list of
  statements with no error, while the same definition of type \<^verbatim>\<open>ActionRenameTables\<close> is
  rejected.
\<close>

theorem GenDDLViaColumnsDiff_rename_table_not_rejected:
  "GenDDLViaColumnsDiff (fixed_diff unchanged_items) int_type [sample_col ''id'']
     (sample_def ActionRenameTable) = Ok [] \<and>
   GenDDLViaColumnsDiff (fixed_diff unchanged_items) int_type [sample_col ''id'']
     (sample_def ActionRenameTables) =
     Err (ErrorsNew
       (''Received rename table ddl, new change data can not be capture by TiCDC any more.''
        @ ''If you want to rename table, please start a new task to capture the new table''))"
  by (simp add: GenDDLViaColumnsDiff_def sample_def_def ActionRenameTable_def fixed_diff_def
        unchanged_items_def ddl_of_item_def)




section \<open>checkStage and Replicate\<close>

lemma Replicate_no_failure:
  assumes "checkStage (storage env) = ((stage, None), probes)" and "all_succeed env storagePath"
  shows "Replicate env storagePath mode =
           (None, probes @ position_calls mode
                    @ concat (map (\<lambda>s. if skipped mode s then []
                                        else stage_action (start_position env mode) s)
                                (stages_from stage)))"
proof -
  from assms(2) obtain snapshotURI incrementURI
    where uris: "genURI env storagePath = (snapshotURI, incrementURI, None)"
    by (cases "genURI env storagePath") (auto simp: all_succeed_def)
  from assms uris show ?thesis
    by (cases stage; cases mode)
       (simp_all add: Replicate_def all_succeed_def after_calls_def switch_stage_def
          case_StageInit_def case_StageChangefeedCreated_def case_StageSnapshotDumped_def
          case_StageSnapshotLoaded_def position_calls_def start_position_def stages_from_def
          stage_order_def)
qed

lemma checkStage_cases:
  assumes "GetExternalStorage st = None"
  shows "fst (fst (checkStage st)) = stage_order ! markers_found st \<and>
         snd (checkStage st) = map FileExists_call (take (Suc (markers_found st)) markers) \<and>
         snd (fst (checkStage st)) =
           (if markers_found st < 3
            then errors_Wrap (snd (FileExists st (markers ! markers_found st)))
                   (check_messages ! markers_found st)
            else None)"
  using assms
  by (auto simp: checkStage_def markers_found_def marker_found_def markers_def stage_order_def
        check_messages_def errors_Wrap_def split: prod.splits option.splits)

lemma all_succeed_healthy_env: "all_succeed (healthy_env present) storagePath"
  by (simp add: all_succeed_def healthy_env_def genURI_def)

lemma checkStage_two_markers:
  "checkStage (store_with [''increment/metadata'', ''snapshot/metadata'']) =
     ((StageSnapshotDumped, None),
      [FileExists_call ''increment/metadata'', FileExists_call ''snapshot/metadata'',
       FileExists_call ''snapshot/loadinfo''])"
  by (simp add: checkStage_def store_with_def errors_Wrap_def)

text \<open>
  The operations that a run can invoke, whatever fails: a stage operation is among them
  only when the run mode does not skip it.
\<close>

lemma checkStage_probes_only:
  "c \<in> set (snd (checkStage st)) \<Longrightarrow> \<exists>path. c = FileExists_call path"
  by (auto simp: checkStage_def split: option.splits prod.splits if_splits)

lemma case_StageSnapshotLoaded_calls:
  "set (snd (case_StageSnapshotLoaded env mode))
     \<subseteq> (if mode = RunModeSnapshotOnly then {} else {StartReplicateIncrement_call})"
  by (auto simp: case_StageSnapshotLoaded_def split: option.splits)

lemma case_StageSnapshotDumped_calls:
  "set (snd (case_StageSnapshotDumped env mode))
     \<subseteq> (if mode = RunModeIncrementalOnly then {} else {StartReplicateSnapshot_call})
       \<union> (if mode = RunModeSnapshotOnly then {} else {StartReplicateIncrement_call})"
  using case_StageSnapshotLoaded_calls [of env mode]
  by (auto simp: case_StageSnapshotDumped_def after_calls_def split: option.splits if_splits)

lemma case_StageChangefeedCreated_calls:
  "set (snd (case_StageChangefeedCreated env mode tso))
     \<subseteq> (if mode = RunModeIncrementalOnly \<or> mode = RunModeCloud then {} else {RunDump_call tso})
       \<union> (if mode = RunModeIncrementalOnly then {} else {StartReplicateSnapshot_call})
       \<union> (if mode = RunModeSnapshotOnly then {} else {StartReplicateIncrement_call})"
  using case_StageSnapshotDumped_calls [of env mode]
  by (auto simp: case_StageChangefeedCreated_def after_calls_def split: option.splits if_splits)

lemma case_StageInit_calls:
  "set (snd (case_StageInit env mode tso))
     \<subseteq> (if mode = RunModeSnapshotOnly \<or> mode = RunModeCloud then {}
         else {NewCDCConnector_call tso, CreateChangefeed_call})
       \<union> (if mode = RunModeIncrementalOnly \<or> mode = RunModeCloud then {} else {RunDump_call tso})
       \<union> (if mode = RunModeIncrementalOnly then {} else {StartReplicateSnapshot_call})
       \<union> (if mode = RunModeSnapshotOnly then {} else {StartReplicateIncrement_call})"
  using case_StageChangefeedCreated_calls [of env mode tso]
  by (auto simp: case_StageInit_def after_calls_def split: option.splits if_splits)

lemma switch_stage_calls:
  "set (snd (switch_stage env mode tso stage))
     \<subseteq> (if mode = RunModeSnapshotOnly \<or> mode = RunModeCloud then {}
         else {NewCDCConnector_call tso, CreateChangefeed_call})
       \<union> (if mode = RunModeIncrementalOnly \<or> mode = RunModeCloud then {} else {RunDump_call tso})
       \<union> (if mode = RunModeIncrementalOnly then {} else {StartReplicateSnapshot_call})
       \<union> (if mode = RunModeSnapshotOnly then {} else {StartReplicateIncrement_call})"
  using case_StageInit_calls [of env mode tso] case_StageChangefeedCreated_calls [of env mode tso]
    case_StageSnapshotDumped_calls [of env mode] case_StageSnapshotLoaded_calls [of env mode]
  by (cases stage) (auto simp: switch_stage_def split: if_splits)

lemma Replicate_calls:
  "set (snd (Replicate env storagePath mode))
     \<subseteq> range FileExists_call \<union> {GetCurrentTSO_call}
       \<union> (if mode = RunModeSnapshotOnly \<or> mode = RunModeCloud then {}
          else {NewCDCConnector_call (start_position env mode), CreateChangefeed_call})
       \<union> (if mode = RunModeIncrementalOnly \<or> mode = RunModeCloud then {}
          else {RunDump_call (start_position env mode)})
       \<union> (if mode = RunModeIncrementalOnly then {} else {StartReplicateSnapshot_call})
       \<union> (if mode = RunModeSnapshotOnly then {} else {StartReplicateIncrement_call})"
proof -
  obtain stage err probes where cs: "checkStage (storage env) = ((stage, err), probes)"
    by (metis prod.exhaust)
  then have probes: "set probes \<subseteq> range FileExists_call"
    using checkStage_probes_only [of _ "storage env"] by auto
  obtain s i e where g: "genURI env storagePath = (s, i, e)"
    by (metis prod.exhaust)
  have sw: "set (snd (switch_stage env mode (start_position env mode) stage))
     \<subseteq> (if mode = RunModeSnapshotOnly \<or> mode = RunModeCloud then {}
          else {NewCDCConnector_call (start_position env mode), CreateChangefeed_call})
       \<union> (if mode = RunModeIncrementalOnly \<or> mode = RunModeCloud then {}
          else {RunDump_call (start_position env mode)})
       \<union> (if mode = RunModeIncrementalOnly then {} else {StartReplicateSnapshot_call})
       \<union> (if mode = RunModeSnapshotOnly then {} else {StartReplicateIncrement_call})"
    by (rule switch_stage_calls)
  have "set (snd (Replicate env storagePath mode))
          \<subseteq> set probes \<union> {GetCurrentTSO_call}
              \<union> set (snd (switch_stage env mode (start_position env mode) stage))"
    by (auto simp: Replicate_def cs g after_calls_def start_position_def split: if_splits)
  with probes sw show ?thesis by blast
qed

text \<open>
  Claim C5. On a storage that opens, \<^verbatim>\<open>checkStage\<close> probes \<^verbatim>\<open>increment/metadata\<close>,
  \<^verbatim>\<open>snapshot/metadata\<close>, \<^verbatim>\<open>snapshot/loadinfo\<close> in that order and stops after the first
  marker that is not found; the stage it returns is as many steps after \<open>StageInit\<close> as
  markers were found; when the probe that stopped it failed, the failure is returned as
  a wrapped error, and when that probe reported absence, the error is \<^verbatim>\<open>nil\<close>. A storage
  that does not open gives \<open>StageInit\<close> with the error and no probe.
\<close>

theorem checkStage_follows_markers:
  "(GetExternalStorage st = None \<longrightarrow>
      markers_found st \<le> 3 \<and>
      snd (checkStage st) = map FileExists_call (take (Suc (markers_found st)) markers) \<and>
      fst (fst (checkStage st)) = stage_order ! markers_found st \<and>
      snd (fst (checkStage st)) =
        (if markers_found st < 3
         then errors_Wrap (snd (FileExists st (markers ! markers_found st)))
                (check_messages ! markers_found st)
         else None)) \<and>
   (\<forall>err. GetExternalStorage st = Some err \<longrightarrow> checkStage st = ((StageInit, Some err), []))"
proof (intro conjI impI allI)
  assume opened: "GetExternalStorage st = None"
  show "markers_found st \<le> 3"
    using length_takeWhile_le [of "marker_found st" markers]
    by (simp add: markers_found_def markers_def)
  from checkStage_cases [OF opened]
  show "snd (checkStage st) = map FileExists_call (take (Suc (markers_found st)) markers)"
    and "fst (fst (checkStage st)) = stage_order ! markers_found st"
    and "snd (fst (checkStage st)) =
        (if markers_found st < 3
         then errors_Wrap (snd (FileExists st (markers ! markers_found st)))
                (check_messages ! markers_found st)
         else None)"
    by simp_all
next
  fix err assume "GetExternalStorage st = Some err"
  then show "checkStage st = ((StageInit, Some err), [])"
    by (simp add: checkStage_def)
qed

theorem checkStage_follows_markers_witness:
  "GetExternalStorage failing_store = None \<and>
   markers_found failing_store = 1 \<and>
   checkStage failing_store =
     ((StageChangefeedCreated,
       Some (ErrorsWrap (ErrorsNew ''connection reset'') ''Failed to check snapshot metadata'')),
      [FileExists_call ''increment/metadata'', FileExists_call ''snapshot/metadata'']) \<and>
   markers_found (store_with [''increment/metadata'', ''snapshot/metadata'']) = 2 \<and>
   checkStage (store_with [''increment/metadata'', ''snapshot/metadata'']) =
     ((StageSnapshotDumped, None),
      [FileExists_call ''increment/metadata'', FileExists_call ''snapshot/metadata'',
       FileExists_call ''snapshot/loadinfo''])"
proof -
  have open1: "GetExternalStorage failing_store = None"
    by (simp add: failing_store_def)
  have found1: "markers_found failing_store = 1"
    by (simp add: markers_found_def marker_found_def markers_def failing_store_def)
  have open2: "GetExternalStorage (store_with [''increment/metadata'', ''snapshot/metadata'']) = None"
    by (simp add: store_with_def)
  have found2: "markers_found (store_with [''increment/metadata'', ''snapshot/metadata'']) = 2"
    by (simp add: markers_found_def marker_found_def markers_def store_with_def)
  from checkStage_follows_markers [of failing_store] open1 found1
  have "checkStage failing_store =
     ((StageChangefeedCreated,
       Some (ErrorsWrap (ErrorsNew ''connection reset'') ''Failed to check snapshot metadata'')),
      [FileExists_call ''increment/metadata'', FileExists_call ''snapshot/metadata''])"
    by (simp add: prod_eq_iff markers_def stage_order_def check_messages_def errors_Wrap_def
          failing_store_def)
  moreover
  from checkStage_follows_markers [of "store_with [''increment/metadata'', ''snapshot/metadata'']"]
    open2 found2
  have "checkStage (store_with [''increment/metadata'', ''snapshot/metadata'']) =
     ((StageSnapshotDumped, None),
      [FileExists_call ''increment/metadata'', FileExists_call ''snapshot/metadata'',
       FileExists_call ''snapshot/loadinfo''])"
    by (simp add: prod_eq_iff markers_def stage_order_def check_messages_def errors_Wrap_def
          store_with_def)
  ultimately show ?thesis using open1 found1 found2 by simp
qed

text \<open>
  Claim C3, as amended. For every entry stage returned by \<^verbatim>\<open>checkStage\<close> and every run
  mode, when no operation fails, one invocation of \<^verbatim>\<open>Replicate\<close> goes through the entry
  stage and every later stage in order, without stopping in between, and executes the
  action of each of these stages unless the run mode skips it: the gating applies to
  the later stages as it does to the entry stage.
\<close>

theorem Replicate_falls_through_gated:
  assumes "checkStage (storage env) = ((stage, None), probes)"
    and "all_succeed env storagePath"
  shows "Replicate env storagePath mode =
           (None,
            probes @ position_calls mode
              @ concat (map (\<lambda>s. if skipped mode s then []
                                  else stage_action (start_position env mode) s)
                          (stages_from stage)))
         \<and> stage \<in> set (stages_from stage)
         \<and> (\<forall>s. s \<in> set (stages_from stage) \<and> \<not> skipped mode s \<longrightarrow>
                set (stage_action (start_position env mode) s)
                  \<subseteq> set (snd (Replicate env storagePath mode)))"
proof -
  let ?act = "\<lambda>s. if skipped mode s then [] else stage_action (start_position env mode) s"
  have run: "Replicate env storagePath mode =
               (None, probes @ position_calls mode @ concat (map ?act (stages_from stage)))"
    using assms by (rule Replicate_no_failure)
  have entry: "stage \<in> set (stages_from stage)"
    by (cases stage) (simp_all add: stages_from_def stage_order_def)
  have "set (stage_action (start_position env mode) s)
          \<subseteq> set (snd (Replicate env storagePath mode))"
    if "s \<in> set (stages_from stage)" and "\<not> skipped mode s" for s
  proof -
    from that(1) have "set (?act s) \<subseteq> set (concat (map ?act (stages_from stage)))"
      by auto
    moreover from that(2) have "?act s = stage_action (start_position env mode) s"
      by simp
    moreover have "set (concat (map ?act (stages_from stage)))
                     \<subseteq> set (snd (Replicate env storagePath mode))"
      unfolding run by auto
    ultimately show ?thesis by simp
  qed
  with run entry show ?thesis by blast
qed

theorem Replicate_falls_through_gated_witness:
  "checkStage (storage (healthy_env [])) =
     ((StageInit, None), [FileExists_call ''increment/metadata'']) \<and>
   all_succeed (healthy_env []) ''s3://bucket/ws'' \<and>
   Replicate (healthy_env []) ''s3://bucket/ws'' RunModeFull =
     (None,
      [FileExists_call ''increment/metadata'', GetCurrentTSO_call,
       NewCDCConnector_call 7, CreateChangefeed_call, RunDump_call 7,
       StartReplicateSnapshot_call, StartReplicateIncrement_call])"
proof -
  have entry: "checkStage (storage (healthy_env [])) =
     ((StageInit, None), [FileExists_call ''increment/metadata''])"
    by (simp add: checkStage_def healthy_env_def store_with_def errors_Wrap_def)
  from Replicate_falls_through_gated [OF entry all_succeed_healthy_env, of "''s3://bucket/ws''" RunModeFull]
  have "Replicate (healthy_env []) ''s3://bucket/ws'' RunModeFull =
     (None,
      [FileExists_call ''increment/metadata'', GetCurrentTSO_call,
       NewCDCConnector_call 7, CreateChangefeed_call, RunDump_call 7,
       StartReplicateSnapshot_call, StartReplicateIncrement_call])"
    by (simp add: position_calls_def start_position_def stages_from_def stage_order_def
          healthy_env_def)
  with entry all_succeed_healthy_env show ?thesis by simp
qed

text \<open>
  As first stated, with the actions of the later stages executed unconditionally, the
  claim fails in mode snapshot-only entered at \<open>StageSnapshotDumped\<close>: the run loads the
  snapshot, the action of the entry stage, and then ends, the incremental replay of the
  later stage being skipped.
\<close>

theorem Replicate_later_stage_gated_counterexample:
  "checkStage (storage (healthy_env [''increment/metadata'', ''snapshot/metadata''])) =
     ((StageSnapshotDumped, None),
      [FileExists_call ''increment/metadata'', FileExists_call ''snapshot/metadata'',
       FileExists_call ''snapshot/loadinfo'']) \<and>
   all_succeed (healthy_env [''increment/metadata'', ''snapshot/metadata'']) ''s3://bucket/ws'' \<and>
   Replicate (healthy_env [''increment/metadata'', ''snapshot/metadata'']) ''s3://bucket/ws''
       RunModeSnapshotOnly =
     (None,
      [FileExists_call ''increment/metadata'', FileExists_call ''snapshot/metadata'',
       FileExists_call ''snapshot/loadinfo'', StartReplicateSnapshot_call]) \<and>
   StartReplicateIncrement_call \<notin>
     set (snd (Replicate (healthy_env [''increment/metadata'', ''snapshot/metadata''])
                 ''s3://bucket/ws'' RunModeSnapshotOnly))"
proof -
  have entry: "checkStage (storage (healthy_env [''increment/metadata'', ''snapshot/metadata''])) =
     ((StageSnapshotDumped, None),
      [FileExists_call ''increment/metadata'', FileExists_call ''snapshot/metadata'',
       FileExists_call ''snapshot/loadinfo''])"
    using checkStage_two_markers by (simp add: healthy_env_def)
  have run: "Replicate (healthy_env [''increment/metadata'', ''snapshot/metadata''])
       ''s3://bucket/ws'' RunModeSnapshotOnly =
     (None,
      [FileExists_call ''increment/metadata'', FileExists_call ''snapshot/metadata'',
       FileExists_call ''snapshot/loadinfo'', StartReplicateSnapshot_call])"
    using Replicate_no_failure [OF entry all_succeed_healthy_env, of "''s3://bucket/ws''" RunModeSnapshotOnly]
    by (simp add: position_calls_def stages_from_def stage_order_def)
  show ?thesis
    using entry all_succeed_healthy_env run by simp
qed

text \<open>
  Claim C4. In every run, whatever fails, the change-capture setup is skipped in the
  modes snapshot-only and cloud, the snapshot dump in the modes incremental-only and
  cloud, the snapshot load in the mode incremental-only and the incremental replay in
  the mode snapshot-only. In all other combinations the action of a reached stage
  executes: when no operation fails, for every entry stage, the change-capture setup
  executes exactly when the entry stage is \<open>StageInit\<close> and the mode is neither
  snapshot-only nor cloud; the snapshot dump exactly when the entry stage is \<open>StageInit\<close>
  or \<open>StageChangefeedCreated\<close> and the mode is neither incremental-only nor cloud; the
  snapshot load exactly when the entry stage is not \<open>StageSnapshotLoaded\<close> and the mode is
  not incremental-only; the incremental replay exactly when the mode is not
  snapshot-only.
\<close>

theorem Replicate_gates_by_mode:
  "(mode = RunModeSnapshotOnly \<or> mode = RunModeCloud \<longrightarrow>
      NewCDCConnector_call tso \<notin> set (snd (Replicate env storagePath mode)) \<and>
      CreateChangefeed_call \<notin> set (snd (Replicate env storagePath mode))) \<and>
   (mode = RunModeIncrementalOnly \<or> mode = RunModeCloud \<longrightarrow>
      RunDump_call tso \<notin> set (snd (Replicate env storagePath mode))) \<and>
   (mode = RunModeIncrementalOnly \<longrightarrow>
      StartReplicateSnapshot_call \<notin> set (snd (Replicate env storagePath mode))) \<and>
   (mode = RunModeSnapshotOnly \<longrightarrow>
      StartReplicateIncrement_call \<notin> set (snd (Replicate env storagePath mode))) \<and>
   (checkStage (storage env) = ((stage, None), probes) \<and> all_succeed env storagePath \<longrightarrow>
      (\<exists>rest.
         snd (Replicate env storagePath mode) = probes @ position_calls mode @ rest \<and>
         (NewCDCConnector_call (start_position env mode) \<in> set rest \<longleftrightarrow>
            stage = StageInit \<and> mode \<noteq> RunModeSnapshotOnly \<and> mode \<noteq> RunModeCloud) \<and>
         (CreateChangefeed_call \<in> set rest \<longleftrightarrow>
            stage = StageInit \<and> mode \<noteq> RunModeSnapshotOnly \<and> mode \<noteq> RunModeCloud) \<and>
         (RunDump_call (start_position env mode) \<in> set rest \<longleftrightarrow>
            (stage = StageInit \<or> stage = StageChangefeedCreated)
            \<and> mode \<noteq> RunModeIncrementalOnly \<and> mode \<noteq> RunModeCloud) \<and>
         (StartReplicateSnapshot_call \<in> set rest \<longleftrightarrow>
            stage \<noteq> StageSnapshotLoaded \<and> mode \<noteq> RunModeIncrementalOnly) \<and>
         (StartReplicateIncrement_call \<in> set rest \<longleftrightarrow> mode \<noteq> RunModeSnapshotOnly)))"
proof (intro conjI impI)
  note calls = Replicate_calls [of env storagePath mode]
  show "NewCDCConnector_call tso \<notin> set (snd (Replicate env storagePath mode))"
    if "mode = RunModeSnapshotOnly \<or> mode = RunModeCloud"
    using calls that by (auto split: if_splits)
  show "CreateChangefeed_call \<notin> set (snd (Replicate env storagePath mode))"
    if "mode = RunModeSnapshotOnly \<or> mode = RunModeCloud"
    using calls that by (auto split: if_splits)
  show "RunDump_call tso \<notin> set (snd (Replicate env storagePath mode))"
    if "mode = RunModeIncrementalOnly \<or> mode = RunModeCloud"
    using calls that by (auto split: if_splits)
  show "StartReplicateSnapshot_call \<notin> set (snd (Replicate env storagePath mode))"
    if "mode = RunModeIncrementalOnly"
    using calls that by (auto split: if_splits)
  show "StartReplicateIncrement_call \<notin> set (snd (Replicate env storagePath mode))"
    if "mode = RunModeSnapshotOnly"
    using calls that by (auto split: if_splits)
next
  assume ok: "checkStage (storage env) = ((stage, None), probes) \<and> all_succeed env storagePath"
  let ?rest = "concat (map (\<lambda>s. if skipped mode s then []
                                  else stage_action (start_position env mode) s)
                          (stages_from stage))"
  have "snd (Replicate env storagePath mode) = probes @ position_calls mode @ ?rest"
    using Replicate_no_failure [of env stage probes storagePath mode] ok by simp
  moreover have
    "(NewCDCConnector_call (start_position env mode) \<in> set ?rest \<longleftrightarrow>
        stage = StageInit \<and> mode \<noteq> RunModeSnapshotOnly \<and> mode \<noteq> RunModeCloud) \<and>
     (CreateChangefeed_call \<in> set ?rest \<longleftrightarrow>
        stage = StageInit \<and> mode \<noteq> RunModeSnapshotOnly \<and> mode \<noteq> RunModeCloud) \<and>
     (RunDump_call (start_position env mode) \<in> set ?rest \<longleftrightarrow>
        (stage = StageInit \<or> stage = StageChangefeedCreated)
        \<and> mode \<noteq> RunModeIncrementalOnly \<and> mode \<noteq> RunModeCloud) \<and>
     (StartReplicateSnapshot_call \<in> set ?rest \<longleftrightarrow>
        stage \<noteq> StageSnapshotLoaded \<and> mode \<noteq> RunModeIncrementalOnly) \<and>
     (StartReplicateIncrement_call \<in> set ?rest \<longleftrightarrow> mode \<noteq> RunModeSnapshotOnly)"
    by (cases stage; cases mode) (simp_all add: stages_from_def stage_order_def)
  ultimately show "\<exists>rest.
         snd (Replicate env storagePath mode) = probes @ position_calls mode @ rest \<and>
         (NewCDCConnector_call (start_position env mode) \<in> set rest \<longleftrightarrow>
            stage = StageInit \<and> mode \<noteq> RunModeSnapshotOnly \<and> mode \<noteq> RunModeCloud) \<and>
         (CreateChangefeed_call \<in> set rest \<longleftrightarrow>
            stage = StageInit \<and> mode \<noteq> RunModeSnapshotOnly \<and> mode \<noteq> RunModeCloud) \<and>
         (RunDump_call (start_position env mode) \<in> set rest \<longleftrightarrow>
            (stage = StageInit \<or> stage = StageChangefeedCreated)
            \<and> mode \<noteq> RunModeIncrementalOnly \<and> mode \<noteq> RunModeCloud) \<and>
         (StartReplicateSnapshot_call \<in> set rest \<longleftrightarrow>
            stage \<noteq> StageSnapshotLoaded \<and> mode \<noteq> RunModeIncrementalOnly) \<and>
         (StartReplicateIncrement_call \<in> set rest \<longleftrightarrow> mode \<noteq> RunModeSnapshotOnly)"
    by blast
qed

theorem Replicate_gates_by_mode_witness:
  "checkStage (storage (healthy_env [])) =
     ((StageInit, None), [FileExists_call ''increment/metadata'']) \<and>
   all_succeed (healthy_env []) ''s3://bucket/ws'' \<and>
   NewCDCConnector_call 0 \<notin> set (snd (Replicate (healthy_env []) ''s3://bucket/ws'' RunModeCloud)) \<and>
   CreateChangefeed_call \<notin> set (snd (Replicate (healthy_env []) ''s3://bucket/ws'' RunModeCloud)) \<and>
   RunDump_call 0 \<notin> set (snd (Replicate (healthy_env []) ''s3://bucket/ws'' RunModeCloud)) \<and>
   (\<exists>rest.
      snd (Replicate (healthy_env []) ''s3://bucket/ws'' RunModeCloud) =
        [FileExists_call ''increment/metadata''] @ rest \<and>
      StartReplicateSnapshot_call \<in> set rest \<and>
      StartReplicateIncrement_call \<in> set rest)"
proof -
  have entry: "checkStage (storage (healthy_env [])) =
     ((StageInit, None), [FileExists_call ''increment/metadata''])"
    by (simp add: checkStage_def healthy_env_def store_with_def errors_Wrap_def)
  note inst = Replicate_gates_by_mode
    [where mode = RunModeCloud and env = "healthy_env []" and storagePath = "''s3://bucket/ws''"
       and tso = 0 and stage = StageInit and probes = "[FileExists_call ''increment/metadata'']"]
  from inst have skip:
    "NewCDCConnector_call 0 \<notin> set (snd (Replicate (healthy_env []) ''s3://bucket/ws'' RunModeCloud))"
    "CreateChangefeed_call \<notin> set (snd (Replicate (healthy_env []) ''s3://bucket/ws'' RunModeCloud))"
    "RunDump_call 0 \<notin> set (snd (Replicate (healthy_env []) ''s3://bucket/ws'' RunModeCloud))"
    by simp_all
  from inst entry all_succeed_healthy_env [of "[]" "''s3://bucket/ws''"]
  have "\<exists>rest.
      snd (Replicate (healthy_env []) ''s3://bucket/ws'' RunModeCloud) =
        [FileExists_call ''increment/metadata''] @ rest \<and>
      StartReplicateSnapshot_call \<in> set rest \<and>
      StartReplicateIncrement_call \<in> set rest"
    by (simp add: position_calls_def, blast)
  with entry all_succeed_healthy_env skip show ?thesis by blast
qed

text \<open>
  Claim C8, as amended. With \<^verbatim>\<open>increment/metadata\<close> and \<^verbatim>\<open>snapshot/metadata\<close> present and
  \<^verbatim>\<open>snapshot/loadinfo\<close> absent, \<^verbatim>\<open>Replicate\<close> resumes at \<open>StageSnapshotDumped\<close> and, when no
  operation fails, executes the snapshot load (unless the mode is incremental-only)
  and then the incremental load (unless the mode is snapshot-only); neither the
  change-capture setup nor the snapshot dump executes.
\<close>

theorem Replicate_resume_after_dump:
  assumes "GetExternalStorage (storage env) = None"
    and "FileExists (storage env) ''increment/metadata'' = (True, None)"
    and "FileExists (storage env) ''snapshot/metadata'' = (True, None)"
    and "FileExists (storage env) ''snapshot/loadinfo'' = (False, None)"
    and "all_succeed env storagePath"
  shows "fst (fst (checkStage (storage env))) = StageSnapshotDumped \<and>
         Replicate env storagePath mode =
           (None,
            map FileExists_call markers @ position_calls mode
              @ (if mode = RunModeIncrementalOnly then [] else [StartReplicateSnapshot_call])
              @ (if mode = RunModeSnapshotOnly then [] else [StartReplicateIncrement_call]))"
proof -
  from assms(1-4) have entry: "checkStage (storage env) =
      ((StageSnapshotDumped, None), map FileExists_call markers)"
    by (simp add: checkStage_def markers_def errors_Wrap_def)
  from Replicate_no_failure [OF entry assms(5), of mode] entry
  show ?thesis
    by (cases mode) (simp_all add: stages_from_def stage_order_def)
qed

theorem Replicate_resume_after_dump_witness:
  "GetExternalStorage (storage (healthy_env [''increment/metadata'', ''snapshot/metadata''])) = None \<and>
   FileExists (storage (healthy_env [''increment/metadata'', ''snapshot/metadata'']))
       ''increment/metadata'' = (True, None) \<and>
   FileExists (storage (healthy_env [''increment/metadata'', ''snapshot/metadata'']))
       ''snapshot/metadata'' = (True, None) \<and>
   FileExists (storage (healthy_env [''increment/metadata'', ''snapshot/metadata'']))
       ''snapshot/loadinfo'' = (False, None) \<and>
   all_succeed (healthy_env [''increment/metadata'', ''snapshot/metadata'']) ''s3://bucket/ws'' \<and>
   Replicate (healthy_env [''increment/metadata'', ''snapshot/metadata'']) ''s3://bucket/ws''
       RunModeIncrementalOnly =
     (None,
      [FileExists_call ''increment/metadata'', FileExists_call ''snapshot/metadata'',
       FileExists_call ''snapshot/loadinfo'', StartReplicateIncrement_call])"
proof -
  let ?env = "healthy_env [''increment/metadata'', ''snapshot/metadata'']"
  have opened: "GetExternalStorage (storage ?env) = None"
    and inc: "FileExists (storage ?env) ''increment/metadata'' = (True, None)"
    and snap: "FileExists (storage ?env) ''snapshot/metadata'' = (True, None)"
    and load: "FileExists (storage ?env) ''snapshot/loadinfo'' = (False, None)"
    by (simp_all add: healthy_env_def store_with_def)
  from Replicate_resume_after_dump
         [OF opened inc snap load all_succeed_healthy_env, of "''s3://bucket/ws''"
            RunModeIncrementalOnly]
  have "Replicate ?env ''s3://bucket/ws'' RunModeIncrementalOnly =
     (None,
      [FileExists_call ''increment/metadata'', FileExists_call ''snapshot/metadata'',
       FileExists_call ''snapshot/loadinfo'', StartReplicateIncrement_call])"
    by (simp add: markers_def position_calls_def)
  with opened inc snap load all_succeed_healthy_env show ?thesis by simp
qed

text \<open>
  As first stated, with the incremental load as the only action, the claim fails in
  mode full: the run loads the snapshot before it loads the increments.
\<close>

theorem Replicate_resume_only_increment_counterexample:
  "fst (fst (checkStage (storage (healthy_env [''increment/metadata'', ''snapshot/metadata''])))) =
     StageSnapshotDumped \<and>
   all_succeed (healthy_env [''increment/metadata'', ''snapshot/metadata'']) ''s3://bucket/ws'' \<and>
   Replicate (healthy_env [''increment/metadata'', ''snapshot/metadata'']) ''s3://bucket/ws''
       RunModeFull =
     (None,
      [FileExists_call ''increment/metadata'', FileExists_call ''snapshot/metadata'',
       FileExists_call ''snapshot/loadinfo'', GetCurrentTSO_call,
       StartReplicateSnapshot_call, StartReplicateIncrement_call]) \<and>
   StartReplicateSnapshot_call \<in>
     set (snd (Replicate (healthy_env [''increment/metadata'', ''snapshot/metadata''])
                 ''s3://bucket/ws'' RunModeFull))"
proof -
  have entry: "checkStage (storage (healthy_env [''increment/metadata'', ''snapshot/metadata''])) =
     ((StageSnapshotDumped, None),
      [FileExists_call ''increment/metadata'', FileExists_call ''snapshot/metadata'',
       FileExists_call ''snapshot/loadinfo''])"
    using checkStage_two_markers by (simp add: healthy_env_def)
  have run: "Replicate (healthy_env [''increment/metadata'', ''snapshot/metadata''])
       ''s3://bucket/ws'' RunModeFull =
     (None,
      [FileExists_call ''increment/metadata'', FileExists_call ''snapshot/metadata'',
       FileExists_call ''snapshot/loadinfo'', GetCurrentTSO_call,
       StartReplicateSnapshot_call, StartReplicateIncrement_call])"
    using Replicate_no_failure [OF entry all_succeed_healthy_env, of "''s3://bucket/ws''" RunModeFull]
    by (simp add: position_calls_def stages_from_def stage_order_def)
  show ?thesis
    using entry all_succeed_healthy_env run by simp
qed

end
